theory Spec2Isabelle
  imports Main
begin

section \<open>Enterprise pipeline: compliance, notification and orchestration\<close>

text \<open>
  A shallow embedding of \<^verbatim>\<open>src/demo/enterprise_ml_pipeline.py\<close>.
  Python dictionaries whose key set is fixed by a literal become records, dictionaries that are
  only probed for keys become maps, mutation of \<^verbatim>\<open>self\<close> and of the module level logger
  becomes explicit state passing, and the one call that can raise (the chained pipeline) returns a
  sum with the exception on the left.
\<close>

subsection \<open>Clock readings and the log\<close>

text \<open>
  A reading of \<^verbatim>\<open>datetime.utcnow()\<close> is kept as the three renderings the program takes
  of it: \<^verbatim>\<open>.isoformat()\<close>, \<^verbatim>\<open>.strftime('%Y%m%d_%H%M%S')\<close> and \<^verbatim>\<open>str(...)\<close>.
  Every reading is an argument of the function that performs it.
\<close>

record datetime =
  isoformat :: string
  strftime_Ymd_HMS :: string
  str_of :: string

text \<open>
  One record handed to \<^verbatim>\<open>logger.info\<close> (\<open>Info\<close>) or to \<^verbatim>\<open>logger.error\<close>
  (\<open>Error_dict\<close>). Both calls of \<^verbatim>\<open>logger.error\<close> interpolate the dictionary
  \<^verbatim>\<open>error_details\<close>, whose values are all strings; the record carries the dictionary itself
  after the literal prefix instead of its \<^verbatim>\<open>repr\<close>.
\<close>

type_synonym error_details = "string \<rightharpoonup> string"

datatype log_record =
    Info string
  | Error_dict string error_details

subsection \<open>EnterpriseComplianceChain\<close>

text \<open>
  The dictionary \<^verbatim>\<open>compliance_result\<close>: the five keys of the literal are fields, the keys
  written afterwards (\<^verbatim>\<open>sox_status\<close>, \<^verbatim>\<open>gdpr_status\<close>, \<^verbatim>\<open>hipaa_status\<close>) live in
  the map \<open>status_fields\<close>, so that a key that was never written is absent from its domain.
\<close>

record compliance_result =
  timestamp :: string
  standards_checked :: "string list"
  compliance_status :: string
  violations :: "string list"
  audit_id :: string
  status_fields :: "string \<rightharpoonup> string"

record EnterpriseComplianceChain =
  standards :: "string list"
  audit_trail :: "compliance_result list"

text \<open>
  \<^verbatim>\<open>__init__\<close>: \<^verbatim>\<open>standards or [...]\<close> takes the default for \<^verbatim>\<open>None\<close> and for the
  empty list, both falsy.
\<close>

definition default_standards :: "string list" where
  "default_standards = [''SOX'', ''GDPR'', ''HIPAA'', ''PCI_DSS'']"

definition EnterpriseComplianceChain_init :: "string list option \<Rightarrow> EnterpriseComplianceChain" where
  "EnterpriseComplianceChain_init arg =
     \<lparr> standards = (case arg of None \<Rightarrow> default_standards
                               | Some [] \<Rightarrow> default_standards
                               | Some s \<Rightarrow> s),
       audit_trail = [] \<rparr>"

text \<open>
  The three predicates: \<^verbatim>\<open>all(field in data for field in required_fields)\<close>, a test
  of key membership only.
\<close>

definition validate_sox_compliance :: "(string \<rightharpoonup> 'v) \<Rightarrow> bool" where
  "validate_sox_compliance data =
     (let required_fields = [''data_classification'', ''access_controls'', ''audit_trail'']
      in list_all (\<lambda>field. field \<in> dom data) required_fields)"

definition validate_gdpr_compliance :: "(string \<rightharpoonup> 'v) \<Rightarrow> bool" where
  "validate_gdpr_compliance data =
     (let privacy_fields = [''consent_status'', ''data_purpose'', ''retention_period'']
      in list_all (\<lambda>field. field \<in> dom data) privacy_fields)"

definition validate_hipaa_compliance :: "(string \<rightharpoonup> 'v) \<Rightarrow> bool" where
  "validate_hipaa_compliance data =
     (let hipaa_fields = [''phi_classification'', ''encryption_status'', ''access_controls'']
      in list_all (\<lambda>field. field \<in> dom data) hipaa_fields)"

text \<open>
  \<^verbatim>\<open>validate\<close>. \<open>t1\<close> and \<open>t2\<close> are the two clock readings of the dictionary literal;
  \<open>r0\<close> is the literal, \<open>r1\<close>, \<open>r2\<close> and \<open>r3\<close> the dictionary after the SOX, GDPR and
  HIPAA blocks. The method appends the report to \<^verbatim>\<open>self.audit_trail\<close> and writes one log
  record, so it returns the report together with the updated object and log.
\<close>

definition validate ::
  "EnterpriseComplianceChain \<Rightarrow> log_record list \<Rightarrow> datetime \<Rightarrow> datetime \<Rightarrow> (string \<rightharpoonup> 'v)
     \<Rightarrow> compliance_result \<times> EnterpriseComplianceChain \<times> log_record list"
where
  "validate self logger t1 t2 data =
     (let r0 =
            \<lparr> timestamp = isoformat t1,
              standards_checked = standards self,
              compliance_status = ''PASSED'',
              violations = [],
              audit_id = ''audit_'' @ strftime_Ymd_HMS t2,
              status_fields = Map.empty \<rparr>;
          r1 =
            (if ''SOX'' \<in> set (standards self) then
               (if validate_sox_compliance data
                then r0\<lparr>status_fields := (status_fields r0)(''sox_status'' \<mapsto> ''COMPLIANT'')\<rparr>
                else r0\<lparr>violations := violations r0 @ [''SOX violation detected'']\<rparr>)
             else r0);
          r2 =
            (if ''GDPR'' \<in> set (standards self) then
               (if validate_gdpr_compliance data
                then r1\<lparr>status_fields := (status_fields r1)(''gdpr_status'' \<mapsto> ''COMPLIANT'')\<rparr>
                else r1\<lparr>violations := violations r1 @ [''GDPR violation detected'']\<rparr>)
             else r1);
          r3 =
            (if ''HIPAA'' \<in> set (standards self) then
               (if validate_hipaa_compliance data
                then r2\<lparr>status_fields := (status_fields r2)(''hipaa_status'' \<mapsto> ''COMPLIANT'')\<rparr>
                else r2\<lparr>violations := violations r2 @ [''HIPAA violation detected'']\<rparr>)
             else r2)
      in (r3,
          self\<lparr>audit_trail := audit_trail self @ [r3]\<rparr>,
          logger @ [Info (''Compliance validation completed: '' @ audit_id r3)]))"

subsection \<open>EnterpriseNotificationChain\<close>

record EnterpriseNotificationChain =
  slack_webhook :: "string option"
  pagerduty_key :: "string option"

text \<open>Truth value of an optional string: \<^verbatim>\<open>None\<close> and the empty string are falsy.\<close>

definition truthy :: "string option \<Rightarrow> bool" where
  "truthy x = (case x of None \<Rightarrow> False | Some s \<Rightarrow> s \<noteq> [])"

text \<open>\<^verbatim>\<open>a or b\<close> on optional strings.\<close>

definition py_or :: "string option \<Rightarrow> string option \<Rightarrow> string option" where
  "py_or a b = (if truthy a then a else b)"

text \<open>\<^verbatim>\<open>__init__\<close>; \<open>getenv\<close> is the process environment read by \<^verbatim>\<open>os.getenv\<close>.\<close>

definition EnterpriseNotificationChain_init ::
  "(string \<rightharpoonup> string) \<Rightarrow> string option \<Rightarrow> string option \<Rightarrow> EnterpriseNotificationChain"
where
  "EnterpriseNotificationChain_init getenv slack_webhook_arg pagerduty_key_arg =
     \<lparr> slack_webhook = py_or slack_webhook_arg (getenv ''SLACK_WEBHOOK_URL''),
       pagerduty_key = py_or pagerduty_key_arg (getenv ''PAGERDUTY_INTEGRATION_KEY'') \<rparr>"

text \<open>The dictionary returned by both notification methods.\<close>

record notification_result =
  notifications_sent :: "string list"
  status :: string

text \<open>
  \<^verbatim>\<open>notify_success\<close>. The local \<^verbatim>\<open>slack_message\<close> is built from \<open>pipeline_result\<close>
  and then dropped: nothing is sent and nothing else reads the argument.
\<close>

definition notify_success ::
  "EnterpriseNotificationChain \<Rightarrow> log_record list \<Rightarrow> 'r \<Rightarrow> notification_result \<times> log_record list"
where
  "notify_success self logger pipeline_result =
     (if truthy (slack_webhook self) then
        (\<lparr> notifications_sent = [] @ [''slack''], status = ''success'' \<rparr>,
         logger @ [Info ''Success notification sent to Slack''])
      else
        (\<lparr> notifications_sent = [], status = ''success'' \<rparr>, logger))"

text \<open>
  \<^verbatim>\<open>notify_failure\<close>. \<^verbatim>\<open>error_details.get("severity") == "critical"\<close> is false when
  the key is absent. The local \<^verbatim>\<open>pagerduty_payload\<close> is built and dropped.
\<close>

definition notify_failure ::
  "EnterpriseNotificationChain \<Rightarrow> log_record list \<Rightarrow> error_details
     \<Rightarrow> notification_result \<times> log_record list"
where
  "notify_failure self logger error_details =
     (if truthy (pagerduty_key self) \<and> error_details ''severity'' = Some ''critical'' then
        (\<lparr> notifications_sent = [] @ [''pagerduty''], status = ''failure_notified'' \<rparr>,
         logger @ [Error_dict ''Critical failure notification sent to PagerDuty: '' error_details])
      else
        (\<lparr> notifications_sent = [], status = ''failure_notified'' \<rparr>, logger))"

subsection \<open>Strings: \<^verbatim>\<open>lower\<close> and \<^verbatim>\<open>in\<close>\<close>

text \<open>
  \<^verbatim>\<open>str.lower\<close> on the ASCII range: the letters \<open>A\<close> to \<open>Z\<close> (codes 65 to 90) move to
  \<open>a\<close> to \<open>z\<close>, every other character stays.
\<close>

definition lower_char :: "char \<Rightarrow> char" where
  "lower_char c =
     (let n = (of_char c :: nat) in if 65 \<le> n \<and> n \<le> 90 then char_of (n + 32) else c)"

definition str_lower :: "string \<Rightarrow> string" where
  "str_lower s = map lower_char s"

text \<open>\<^verbatim>\<open>sub in s\<close> on strings: \<open>sub\<close> occurs at some position of \<open>s\<close>.\<close>

fun str_in :: "string \<Rightarrow> string \<Rightarrow> bool" where
  "str_in sub [] = (sub = [])"
| "str_in sub (c # cs) = (take (length sub) (c # cs) = sub \<or> str_in sub cs)"

subsection \<open>The top level entry point\<close>

text \<open>An exception: \<^verbatim>\<open>type(e).__name__\<close> and \<^verbatim>\<open>str(e)\<close>.\<close>

record exn =
  type_name :: string
  str_e :: string

record performance_metrics_dict =
  throughput :: string
  memory_usage :: string
  cpu_efficiency :: string
  cost_per_execution :: string

text \<open>
  The dictionary \<^verbatim>\<open>final_result\<close>; \<open>notification_status\<close> is \<open>None\<close> until the key is
  written.
\<close>

record 'o final_result =
  status :: string
  execution_id :: string
  processing_time :: string
  records_processed :: string
  compliance_status :: string
  performance_metrics :: performance_metrics_dict
  pipeline_output :: 'o
  compliance_report :: compliance_result
  audit_trail_id :: string
  notification_status :: "notification_result option"

text \<open>The dictionary returned from the \<^verbatim>\<open>except\<close> branch.\<close>

record failure_result =
  status :: string
  error_details :: error_details
  compliance_status :: string

datatype 'o pipeline_return =
    Success_dict "'o final_result"
  | Failure_dict failure_result

text \<open>\<^verbatim>\<open>result['status']\<close> and \<^verbatim>\<open>result['compliance_status']\<close>, present in both shapes.\<close>

fun result_status :: "'o pipeline_return \<Rightarrow> string" where
  "result_status (Success_dict r) = final_result.status r"
| "result_status (Failure_dict r) = failure_result.status r"

fun result_compliance_status :: "'o pipeline_return \<Rightarrow> string" where
  "result_compliance_status (Success_dict r) = final_result.compliance_status r"
| "result_compliance_status (Failure_dict r) = failure_result.compliance_status r"

text \<open>\<^verbatim>\<open>result.get('compliance_report')\<close>: the key exists in the success shape only.\<close>

fun result_compliance_report :: "'o pipeline_return \<Rightarrow> compliance_result option" where
  "result_compliance_report (Success_dict r) = Some (compliance_report r)"
| "result_compliance_report (Failure_dict r) = None"

text \<open>
  The module level objects the entry point works on: the validator (mutated by
  \<^verbatim>\<open>validate\<close>), the notification system (read only) and the logger.
\<close>

record world =
  compliance_validator :: EnterpriseComplianceChain
  notification_system :: EnterpriseNotificationChain
  logger :: "log_record list"

text \<open>
  The clock readings of one run, in program order: the start time, the two readings inside
  \<^verbatim>\<open>validate\<close>, the elapsed time already rendered by \<^verbatim>\<open>{processing_time:.2f}\<close>
  (floating point, not computed here), and the reading of the \<^verbatim>\<open>except\<close> branch.
\<close>

record clock =
  pipeline_start_time :: datetime
  validate_timestamp :: datetime
  validate_audit_time :: datetime
  processing_time_2f :: string
  error_time :: datetime

text \<open>The dictionary literal \<^verbatim>\<open>pipeline_input\<close>.\<close>

definition make_pipeline_input :: "clock \<Rightarrow> string \<Rightarrow> string \<Rightarrow> string \<Rightarrow> (string \<rightharpoonup> string)" where
  "make_pipeline_input clk dataset_id compliance_level analysis_type =
     [''dataset_id'' \<mapsto> dataset_id,
      ''compliance_level'' \<mapsto> compliance_level,
      ''analysis_type'' \<mapsto> analysis_type,
      ''execution_id'' \<mapsto> ''exec_'' @ strftime_Ymd_HMS (pipeline_start_time clk),
      ''data_classification'' \<mapsto> ''CONFIDENTIAL'',
      ''access_controls'' \<mapsto> ''RBAC_ENABLED'',
      ''audit_trail'' \<mapsto> ''REQUIRED'',
      ''consent_status'' \<mapsto> ''EXPLICIT_CONSENT'',
      ''data_purpose'' \<mapsto> ''BUSINESS_INTELLIGENCE'',
      ''retention_period'' \<mapsto> ''7_YEARS'',
      ''phi_classification'' \<mapsto> ''NON_PHI'',
      ''encryption_status'' \<mapsto> ''AES_256_ENCRYPTED'']"

text \<open>
  The \<^verbatim>\<open>except Exception as e\<close> block, entered with the world as the \<^verbatim>\<open>try\<close> block
  left it.
\<close>

definition except_block ::
  "clock \<Rightarrow> world \<Rightarrow> (string \<rightharpoonup> string) \<Rightarrow> exn \<Rightarrow> 'o pipeline_return \<times> world"
where
  "except_block clk w pipeline_input e =
     (let error_details =
            [''error_type'' \<mapsto> type_name e,
             ''error_message'' \<mapsto> str_e e,
             ''execution_id'' \<mapsto>
                (case pipeline_input ''execution_id'' of Some v \<Rightarrow> v | None \<Rightarrow> ''unknown''),
             ''timestamp'' \<mapsto> isoformat (error_time clk),
             ''severity'' \<mapsto>
                (if str_in ''authentication'' (str_lower (str_e e))
                 then ''critical'' else ''high'')];
          log1 = logger w @ [Error_dict ''Enterprise pipeline failed: '' error_details];
          (notification_result, log2) = notify_failure (notification_system w) log1 error_details
      in (Failure_dict
            \<lparr> failure_result.status = ''FAILURE'',
              error_details = error_details,
              failure_result.compliance_status = ''UNKNOWN'' \<rparr>,
          w\<lparr>logger := log2\<rparr>))"

text \<open>
  \<^verbatim>\<open>run_enterprise_pipeline\<close>. \<open>enterprise_ml_pipeline\<close> is the chained call, the
  statement of the \<^verbatim>\<open>try\<close> block that can raise: \<open>Inl e\<close> is the exception, \<open>Inr\<close> the
  chain's output. The subscript \<^verbatim>\<open>pipeline_input["execution_id"]\<close> raises
  \<^verbatim>\<open>KeyError\<close> on a missing key, which the literal above never leaves out.
\<close>

definition run_enterprise_pipeline ::
  "((string \<rightharpoonup> string) \<Rightarrow> exn + 'o) \<Rightarrow> clock \<Rightarrow> world \<Rightarrow> string \<Rightarrow> string \<Rightarrow> string
     \<Rightarrow> 'o pipeline_return \<times> world"
where
  "run_enterprise_pipeline enterprise_ml_pipeline clk w dataset_id compliance_level analysis_type =
     (let w1 = w\<lparr>logger := logger w @
            [Info (''Starting enterprise ML pipeline execution: ''
                   @ str_of (pipeline_start_time clk))]\<rparr>;
          pipeline_input = make_pipeline_input clk dataset_id compliance_level analysis_type;
          w2 = w1\<lparr>logger := logger w1 @ [Info ''Executing main ML pipeline chains...'']\<rparr>
      in case enterprise_ml_pipeline pipeline_input of
           Inl e \<Rightarrow> except_block clk w2 pipeline_input e
         | Inr pipeline_result \<Rightarrow>
             (let (compliance_result, validator', log3) =
                     validate (compliance_validator w2)
                       (logger w2 @ [Info ''Validating enterprise compliance...''])
                       (validate_timestamp clk) (validate_audit_time clk) pipeline_input;
                  w3 = w2\<lparr>compliance_validator := validator', logger := log3\<rparr>
              in case pipeline_input ''execution_id'' of
                   None \<Rightarrow>
                     except_block clk w3 pipeline_input
                       \<lparr> type_name = ''KeyError'', str_e = [CHR 0x27] @ ''execution_id'' @ [CHR 0x27] \<rparr>
                 | Some execution_id_value \<Rightarrow>
                     (let final_result =
                            \<lparr> final_result.status = ''SUCCESS'',
                              execution_id = execution_id_value,
                              processing_time = processing_time_2f clk @ '' seconds'',
                              records_processed = ''1,000,000+ records'',
                              final_result.compliance_status =
                                compliance_result.compliance_status compliance_result,
                              performance_metrics =
                                \<lparr> throughput = ''50MB/sec'',
                                  memory_usage = ''25MB peak'',
                                  cpu_efficiency = ''92%'',
                                  cost_per_execution = ''$0.03'' \<rparr>,
                              pipeline_output = pipeline_result,
                              compliance_report = compliance_result,
                              audit_trail_id = audit_id compliance_result,
                              notification_status = None \<rparr>;
                          (notification_result, log4) =
                             notify_success (notification_system w3) (logger w3) final_result;
                          final_result' =
                             final_result\<lparr>notification_status := Some notification_result\<rparr>;
                          log5 = log4 @
                            [Info (''Enterprise pipeline completed successfully in ''
                                   @ processing_time_2f clk @ ''s'')]
                      in (Success_dict final_result', w3\<lparr>logger := log5\<rparr>))))"


subsection \<open>Required keys and sample inputs\<close>

text \<open>
  The key list each predicate reads, by standard name; a name without a predicate has none.
  The lemmas below tie this table to the three predicates.
\<close>

definition required_keys :: "string \<Rightarrow> string list" where
  "required_keys S =
     (if S = ''SOX'' then [''data_classification'', ''access_controls'', ''audit_trail'']
      else if S = ''GDPR'' then [''consent_status'', ''data_purpose'', ''retention_period'']
      else if S = ''HIPAA'' then [''phi_classification'', ''encryption_status'', ''access_controls'']
      else [])"

text \<open>A clock reading, a clock, a chain and a world to run the definitions on.\<close>

definition sample_time :: datetime where
  "sample_time =
     \<lparr> isoformat = ''2025-01-01T00:00:00'',
       strftime_Ymd_HMS = ''20250101_000000'',
       str_of = ''2025-01-01 00:00:00'' \<rparr>"

definition sample_clock :: clock where
  "sample_clock =
     \<lparr> pipeline_start_time = sample_time,
       validate_timestamp = sample_time,
       validate_audit_time = sample_time,
       processing_time_2f = ''0.00'',
       error_time = sample_time \<rparr>"

definition sample_chain :: "string list \<Rightarrow> EnterpriseComplianceChain" where
  "sample_chain stds = \<lparr> standards = stds, audit_trail = [] \<rparr>"

definition sample_world :: "string option \<Rightarrow> string option \<Rightarrow> world" where
  "sample_world slack pagerduty =
     \<lparr> compliance_validator = EnterpriseComplianceChain_init (Some [''SOX'', ''GDPR'', ''HIPAA'', ''PCI_DSS'']),
       notification_system = \<lparr> slack_webhook = slack, pagerduty_key = pagerduty \<rparr>,
       logger = [] \<rparr>"



section \<open>Properties\<close>

subsection \<open>The predicates and the report\<close>

lemma validate_sox_compliance_iff:
  "validate_sox_compliance data \<longleftrightarrow> set (required_keys ''SOX'') \<subseteq> dom data"
  by (simp add: validate_sox_compliance_def required_keys_def)

lemma validate_gdpr_compliance_iff:
  "validate_gdpr_compliance data \<longleftrightarrow> set (required_keys ''GDPR'') \<subseteq> dom data"
  by (simp add: validate_gdpr_compliance_def required_keys_def)

lemma validate_hipaa_compliance_iff:
  "validate_hipaa_compliance data \<longleftrightarrow> set (required_keys ''HIPAA'') \<subseteq> dom data"
  by (simp add: validate_hipaa_compliance_def required_keys_def)

lemma required_keys_other:
  "S \<notin> {''SOX'', ''GDPR'', ''HIPAA''} \<Longrightarrow> required_keys S = []"
  by (simp add: required_keys_def)

text \<open>The violations of a report, block by block, in the order of the source.\<close>

lemma validate_violations:
  "violations (fst (validate self lg t1 t2 data)) =
     (if ''SOX'' \<in> set (standards self) \<and> \<not> validate_sox_compliance data
      then [''SOX violation detected''] else [])
     @ (if ''GDPR'' \<in> set (standards self) \<and> \<not> validate_gdpr_compliance data
        then [''GDPR violation detected''] else [])
     @ (if ''HIPAA'' \<in> set (standards self) \<and> \<not> validate_hipaa_compliance data
        then [''HIPAA violation detected''] else [])"
  by (cases "''SOX'' \<in> set (standards self)"; cases "validate_sox_compliance data";
      cases "''GDPR'' \<in> set (standards self)"; cases "validate_gdpr_compliance data";
      cases "''HIPAA'' \<in> set (standards self)"; cases "validate_hipaa_compliance data";
      simp add: validate_def Let_def)

text \<open>The per-standard keys of a report: written for a configured standard that holds.\<close>

lemma validate_status_fields:
  "status_fields (fst (validate self lg t1 t2 data)) k =
     (if k = ''hipaa_status'' \<and> ''HIPAA'' \<in> set (standards self) \<and> validate_hipaa_compliance data
        then Some ''COMPLIANT''
      else if k = ''gdpr_status'' \<and> ''GDPR'' \<in> set (standards self) \<and> validate_gdpr_compliance data
        then Some ''COMPLIANT''
      else if k = ''sox_status'' \<and> ''SOX'' \<in> set (standards self) \<and> validate_sox_compliance data
        then Some ''COMPLIANT''
      else None)"
  by (cases "''SOX'' \<in> set (standards self)"; cases "validate_sox_compliance data";
      cases "''GDPR'' \<in> set (standards self)"; cases "validate_gdpr_compliance data";
      cases "''HIPAA'' \<in> set (standards self)"; cases "validate_hipaa_compliance data";
      simp add: validate_def Let_def)

text \<open>No block of \<^verbatim>\<open>validate\<close> writes the key \<^verbatim>\<open>compliance_status\<close> again.\<close>

lemma validate_compliance_status:
  "compliance_result.compliance_status (fst (validate self lg t1 t2 data)) = ''PASSED''"
  by (cases "''SOX'' \<in> set (standards self)"; cases "validate_sox_compliance data";
      cases "''GDPR'' \<in> set (standards self)"; cases "validate_gdpr_compliance data";
      cases "''HIPAA'' \<in> set (standards self)"; cases "validate_hipaa_compliance data";
      simp add: validate_def Let_def)

lemma validate_other_fields:
  "timestamp (fst (validate self lg t1 t2 data)) = isoformat t1
   \<and> standards_checked (fst (validate self lg t1 t2 data)) = standards self
   \<and> audit_id (fst (validate self lg t1 t2 data)) = ''audit_'' @ strftime_Ymd_HMS t2"
  by (cases "''SOX'' \<in> set (standards self)"; cases "validate_sox_compliance data";
      cases "''GDPR'' \<in> set (standards self)"; cases "validate_gdpr_compliance data";
      cases "''HIPAA'' \<in> set (standards self)"; cases "validate_hipaa_compliance data";
      simp add: validate_def Let_def)

text \<open>
  What \<^verbatim>\<open>validate\<close> returns besides the report: the object with the report appended to its
  trail, and the log with one more record.
\<close>

lemma validate_shape:
  "\<exists>r. validate self lg t1 t2 data =
         (r, self\<lparr>audit_trail := audit_trail self @ [r]\<rparr>,
          lg @ [Info (''Compliance validation completed: '' @ audit_id r)])"
  by (simp only: validate_def Let_def) (rule exI, rule refl)

lemma validate_snd:
  "snd (validate self lg t1 t2 data) =
     (self\<lparr>audit_trail := audit_trail self @ [fst (validate self lg t1 t2 data)]\<rparr>,
      lg @ [Info (''Compliance validation completed: ''
                  @ audit_id (fst (validate self lg t1 t2 data)))])"
proof -
  from validate_shape [of self lg t1 t2 data] obtain r where
    "validate self lg t1 t2 data =
       (r, self\<lparr>audit_trail := audit_trail self @ [r]\<rparr>,
        lg @ [Info (''Compliance validation completed: '' @ audit_id r)])"
    by blast
  then show ?thesis by simp
qed

subsection \<open>Claims about \<^verbatim>\<open>validate\<close>\<close>

text \<open>
  C1. The claim: the violations list of a report is non-empty exactly when its
  \<^verbatim>\<open>compliance_status\<close> is not \<^verbatim>\<open>PASSED\<close>. The code at standards = [GDPR] and the empty
  context: the report carries the GDPR violation and its status still reads \<^verbatim>\<open>PASSED\<close>,
  the value of the dictionary literal, which no branch overwrites.
\<close>

theorem validate_status_passed_despite_violation:
  "violations (fst (validate (sample_chain [''GDPR'']) [] sample_time sample_time
       (Map.empty :: string \<rightharpoonup> string))) = [''GDPR violation detected'']
   \<and> compliance_result.compliance_status
         (fst (validate (sample_chain [''GDPR'']) [] sample_time sample_time
            (Map.empty :: string \<rightharpoonup> string))) = ''PASSED''"
  by (simp add: validate_violations validate_compliance_status sample_chain_def
        validate_gdpr_compliance_def)

text \<open>
  C2. The claim: with standards = [GDPR] and a context without \<^verbatim>\<open>consent_status\<close> the
  report has status \<^verbatim>\<open>FAILED\<close> and the single violation "GDPR violation detected". The code
  at that input: the violation list is as claimed, the status is not \<^verbatim>\<open>FAILED\<close>.
\<close>

theorem validate_gdpr_missing_consent_status:
  "violations (fst (validate (sample_chain [''GDPR'']) [] sample_time sample_time
       [''data_purpose'' \<mapsto> ''BUSINESS_INTELLIGENCE'', ''retention_period'' \<mapsto> ''7_YEARS''])) =
     [''GDPR violation detected'']
   \<and> compliance_result.compliance_status
         (fst (validate (sample_chain [''GDPR'']) [] sample_time sample_time
            [''data_purpose'' \<mapsto> ''BUSINESS_INTELLIGENCE'', ''retention_period'' \<mapsto> ''7_YEARS'']))
       \<noteq> ''FAILED''"
  by (simp add: validate_violations validate_compliance_status sample_chain_def
        validate_gdpr_compliance_def)

text \<open>
  C3. When the context holds every required key of every configured standard, the report has
  status \<^verbatim>\<open>PASSED\<close> and no violation.
\<close>

theorem validate_all_required_present:
  assumes "\<forall>S \<in> set (standards self). set (required_keys S) \<subseteq> dom data"
  shows "compliance_result.compliance_status (fst (validate self lg t1 t2 data)) = ''PASSED''
         \<and> violations (fst (validate self lg t1 t2 data)) = []"
proof -
  have "''SOX'' \<in> set (standards self) \<Longrightarrow> validate_sox_compliance data"
    using assms by (simp add: validate_sox_compliance_iff)
  moreover have "''GDPR'' \<in> set (standards self) \<Longrightarrow> validate_gdpr_compliance data"
    using assms by (simp add: validate_gdpr_compliance_iff)
  moreover have "''HIPAA'' \<in> set (standards self) \<Longrightarrow> validate_hipaa_compliance data"
    using assms by (simp add: validate_hipaa_compliance_iff)
  ultimately have "violations (fst (validate self lg t1 t2 data)) = []"
    by (auto simp add: validate_violations)
  then show ?thesis by (simp add: validate_compliance_status)
qed

text \<open>The scenario of the specification: standards = [SOX], the three SOX keys present.\<close>

theorem validate_all_required_present_witness:
  "set (required_keys ''SOX'') \<subseteq> dom [''data_classification'' \<mapsto> ''CONFIDENTIAL'',
          ''access_controls'' \<mapsto> ''RBAC_ENABLED'', ''audit_trail'' \<mapsto> ''REQUIRED'']
   \<and> compliance_result.compliance_status
         (fst (validate (sample_chain [''SOX'']) [] sample_time sample_time
            [''data_classification'' \<mapsto> ''CONFIDENTIAL'',
             ''access_controls'' \<mapsto> ''RBAC_ENABLED'', ''audit_trail'' \<mapsto> ''REQUIRED''])) = ''PASSED''
   \<and> violations (fst (validate (sample_chain [''SOX'']) [] sample_time sample_time
        [''data_classification'' \<mapsto> ''CONFIDENTIAL'',
         ''access_controls'' \<mapsto> ''RBAC_ENABLED'', ''audit_trail'' \<mapsto> ''REQUIRED''])) = []"
proof -
  have keys: "set (required_keys ''SOX'') \<subseteq> dom [''data_classification'' \<mapsto> ''CONFIDENTIAL'',
          ''access_controls'' \<mapsto> ''RBAC_ENABLED'', ''audit_trail'' \<mapsto> ''REQUIRED'']"
    by (simp add: required_keys_def)
  then have h: "\<forall>S \<in> set (standards (sample_chain [''SOX''])).
       set (required_keys S) \<subseteq> dom [''data_classification'' \<mapsto> ''CONFIDENTIAL'',
          ''access_controls'' \<mapsto> ''RBAC_ENABLED'', ''audit_trail'' \<mapsto> ''REQUIRED'']"
    by (simp add: sample_chain_def)
  from validate_all_required_present [OF h, of "[]" sample_time sample_time] keys
  show ?thesis by simp
qed

text \<open>
  C7. The claim: \<^verbatim>\<open>validate\<close> has no effect beyond returning the report, and leaves the audit
  trail unchanged. The code appends the report to \<^verbatim>\<open>self.audit_trail\<close> itself (under the
  comment "Log audit trail"): after one call on a chain with an empty trail the trail is no
  longer the one before the call.
\<close>

theorem validate_changes_audit_trail_counterexample:
  "audit_trail (fst (snd (validate (sample_chain [''SOX'']) [] sample_time sample_time
       (Map.empty :: string \<rightharpoonup> string)))) \<noteq> audit_trail (sample_chain [''SOX''])"
  by (simp add: validate_snd sample_chain_def)

text \<open>
  C7, as amended: \<^verbatim>\<open>validate\<close> leaves the configured standards as they are; its effects
  are exactly one append of the returned report at the end of the chain's own audit trail and one
  log record naming the audit id.
\<close>

theorem validate_frame:
  "snd (validate self lg t1 t2 data) =
     (self\<lparr>audit_trail := audit_trail self @ [fst (validate self lg t1 t2 data)]\<rparr>,
      lg @ [Info (''Compliance validation completed: '' @ ''audit_'' @ strftime_Ymd_HMS t2)])
   \<and> standards (fst (snd (validate self lg t1 t2 data))) = standards self"
  by (simp add: validate_snd validate_other_fields)

subsection \<open>Claims about \<^verbatim>\<open>notify_failure\<close>\<close>

text \<open>
  C4. The paging channel is among the notified channels exactly when a paging key is configured
  (a non-empty string) and the severity of the failure is \<^verbatim>\<open>critical\<close>; with severity
  \<^verbatim>\<open>high\<close> nothing is notified, whatever the configuration.
\<close>

theorem notify_failure_pages_iff_critical:
  "(''pagerduty'' \<in> set (notifications_sent (fst (notify_failure self lg d)))
      \<longleftrightarrow> truthy (pagerduty_key self) \<and> d ''severity'' = Some ''critical'')
   \<and> (d ''severity'' = Some ''high'' \<longrightarrow> notifications_sent (fst (notify_failure self lg d)) = [])"
  by (simp add: notify_failure_def)

theorem notify_failure_pages_iff_critical_witness:
  "''pagerduty'' \<in> set (notifications_sent (fst (notify_failure
        \<lparr> slack_webhook = None, pagerduty_key = Some ''routing-key'' \<rparr> []
        [''severity'' \<mapsto> ''critical''])))
   \<and> [''severity'' \<mapsto> ''high''] ''severity'' = Some ''high''
   \<and> notifications_sent (fst (notify_failure
        \<lparr> slack_webhook = None, pagerduty_key = Some ''routing-key'' \<rparr> []
        [''severity'' \<mapsto> ''high''])) = []"
  using notify_failure_pages_iff_critical
          [of "\<lparr> slack_webhook = None, pagerduty_key = Some ''routing-key'' \<rparr>" "[]"
              "[''severity'' \<mapsto> ''critical'']"]
        notify_failure_pages_iff_critical
          [of "\<lparr> slack_webhook = None, pagerduty_key = Some ''routing-key'' \<rparr>" "[]"
              "[''severity'' \<mapsto> ''high'']"]
  by (simp add: truthy_def)

subsection \<open>Substring test\<close>

text \<open>\<open>str_in\<close> decides what \<^verbatim>\<open>sub in s\<close> means: \<open>s\<close> splits around a copy of \<open>sub\<close>.\<close>

lemma str_in_iff: "str_in sub s \<longleftrightarrow> (\<exists>p q. s = p @ sub @ q)"
proof (induction s)
  case Nil
  show ?case by auto
next
  case (Cons c cs)
  show ?case
  proof
    assume "str_in sub (c # cs)"
    then consider "take (length sub) (c # cs) = sub" | "str_in sub cs" by auto
    then show "\<exists>p q. c # cs = p @ sub @ q"
    proof cases
      case 1
      have "c # cs = [] @ take (length sub) (c # cs) @ drop (length sub) (c # cs)"
        by (simp only: append_Nil append_take_drop_id)
      with 1 show ?thesis by metis
    next
      case 2
      with Cons.IH obtain p q where "cs = p @ sub @ q" by blast
      then have "c # cs = (c # p) @ sub @ q" by simp
      then show ?thesis by blast
    qed
  next
    assume "\<exists>p q. c # cs = p @ sub @ q"
    then obtain p q where pq: "c # cs = p @ sub @ q" by blast
    show "str_in sub (c # cs)"
    proof (cases p)
      case Nil
      with pq have "take (length sub) (c # cs) = sub" by simp
      then show ?thesis by simp
    next
      case (Cons a p')
      with pq have "cs = p' @ sub @ q" by simp
      with Cons.IH have "str_in sub cs" by blast
      then show ?thesis by simp
    qed
  qed
qed


subsection \<open>The two exits of \<^verbatim>\<open>run_enterprise_pipeline\<close>\<close>


lemma except_block_result:
  "fst (except_block clk w inp e :: 'o pipeline_return \<times> world) = Failure_dict
     \<lparr> failure_result.status = ''FAILURE'',
       error_details =
         [''error_type'' \<mapsto> type_name e,
          ''error_message'' \<mapsto> str_e e,
          ''execution_id'' \<mapsto> (case inp ''execution_id'' of Some v \<Rightarrow> v | None \<Rightarrow> ''unknown''),
          ''timestamp'' \<mapsto> isoformat (error_time clk),
          ''severity'' \<mapsto> (if str_in ''authentication'' (str_lower (str_e e))
                            then ''critical'' else ''high'')],
       failure_result.compliance_status = ''UNKNOWN'' \<rparr>"
  by (simp add: except_block_def Let_def split: prod.splits)

lemma except_block_validator:
  "compliance_validator (snd (except_block clk w inp e :: 'o pipeline_return \<times> world)) = compliance_validator w"
  "notification_system (snd (except_block clk w inp e :: 'o pipeline_return \<times> world)) = notification_system w"
  by (simp_all add: except_block_def Let_def split: prod.splits)

lemma run_raise:
  assumes "enterprise_ml_pipeline (make_pipeline_input clk a b c) = Inl e"
  shows "run_enterprise_pipeline enterprise_ml_pipeline clk w a b c =
     except_block clk
       (w\<lparr>logger := logger w @
            [Info (''Starting enterprise ML pipeline execution: '' @ str_of (pipeline_start_time clk)),
             Info ''Executing main ML pipeline chains...'']\<rparr>)
       (make_pipeline_input clk a b c) e"
  using assms by (simp add: run_enterprise_pipeline_def Let_def)




subsection \<open>Claims about \<^verbatim>\<open>run_enterprise_pipeline\<close>\<close>

text \<open>
  C5. When the chained call raises \<open>e\<close>, the run returns the failure dictionary, whose
  \<^verbatim>\<open>severity\<close> is \<^verbatim>\<open>critical\<close> exactly when the lowercased message of \<open>e\<close> contains
  \<^verbatim>\<open>authentication\<close>, and \<^verbatim>\<open>high\<close> otherwise.
\<close>

theorem failure_severity_classification:
  assumes "enterprise_ml_pipeline (make_pipeline_input clk dataset_id compliance_level analysis_type)
             = Inl e"
  shows "\<exists>r. fst (run_enterprise_pipeline enterprise_ml_pipeline clk w
                    dataset_id compliance_level analysis_type) = Failure_dict r
           \<and> error_details r ''error_message'' = Some (str_e e)
           \<and> error_details r ''severity'' =
               Some (if (\<exists>p q. str_lower (str_e e) = p @ ''authentication'' @ q)
                     then ''critical'' else ''high'')"
  using assms by (simp add: run_raise except_block_result str_in_iff)

text \<open>
  The two scenarios of the specification: "authentication token expired" is critical,
  "downstream timeout" is high.
\<close>

theorem failure_severity_classification_witness:
  "(\<exists>r. fst (run_enterprise_pipeline
              (\<lambda>_. Inl \<lparr> type_name = ''RuntimeError'', str_e = ''authentication token expired'' \<rparr>
                 :: exn + unit)
              sample_clock (sample_world None None) ''enterprise_demo'' ''all'' ''investment_analysis'')
          = Failure_dict r
        \<and> error_details r ''severity'' = Some ''critical'')
   \<and> (\<exists>r. fst (run_enterprise_pipeline
              (\<lambda>_. Inl \<lparr> type_name = ''TimeoutError'', str_e = ''downstream timeout'' \<rparr>
                 :: exn + unit)
              sample_clock (sample_world None None) ''enterprise_demo'' ''all'' ''investment_analysis'')
          = Failure_dict r
        \<and> error_details r ''severity'' = Some ''high'')"
proof -
  have "str_in ''authentication'' (str_lower ''authentication token expired'')"
    by code_simp
  then have a: "\<exists>p q. str_lower ''authentication token expired'' = p @ ''authentication'' @ q"
    using str_in_iff by blast
  have "\<not> str_in ''authentication'' (str_lower ''downstream timeout'')"
    by code_simp
  then have b: "\<not> (\<exists>p q. str_lower ''downstream timeout'' = p @ ''authentication'' @ q)"
    using str_in_iff by blast
  have h1: "\<exists>r. fst (run_enterprise_pipeline
              (\<lambda>_. Inl \<lparr> type_name = ''RuntimeError'', str_e = ''authentication token expired'' \<rparr>
                 :: exn + unit)
              sample_clock (sample_world None None) ''enterprise_demo'' ''all'' ''investment_analysis'')
          = Failure_dict r
        \<and> error_details r ''severity'' = Some ''critical''"
    using failure_severity_classification
         [of "\<lambda>_. Inl \<lparr> type_name = ''RuntimeError'', str_e = ''authentication token expired'' \<rparr> :: exn + unit"
             sample_clock "''enterprise_demo''" "''all''" "''investment_analysis''"
             "\<lparr> type_name = ''RuntimeError'', str_e = ''authentication token expired'' \<rparr>"
             "sample_world None None"]
       a
    by auto
  have h2: "\<exists>r. fst (run_enterprise_pipeline
              (\<lambda>_. Inl \<lparr> type_name = ''TimeoutError'', str_e = ''downstream timeout'' \<rparr>
                 :: exn + unit)
              sample_clock (sample_world None None) ''enterprise_demo'' ''all'' ''investment_analysis'')
          = Failure_dict r
        \<and> error_details r ''severity'' = Some ''high''"
    using failure_severity_classification
         [of "\<lambda>_. Inl \<lparr> type_name = ''TimeoutError'', str_e = ''downstream timeout'' \<rparr> :: exn + unit"
             sample_clock "''enterprise_demo''" "''all''" "''investment_analysis''"
             "\<lparr> type_name = ''TimeoutError'', str_e = ''downstream timeout'' \<rparr>"
             "sample_world None None"]
       b
    by auto
  from h1 h2 show ?thesis by blast
qed

text \<open>
  C6. When the chained call raises, the validator object is the one before the run (no report was
  appended to its audit trail, so \<^verbatim>\<open>validate\<close> did not run), and the returned dictionary
  has no compliance report: its status is \<^verbatim>\<open>FAILURE\<close> and its compliance status
  \<^verbatim>\<open>UNKNOWN\<close>.
\<close>

theorem failed_stage_no_report_no_audit:
  assumes "enterprise_ml_pipeline (make_pipeline_input clk dataset_id compliance_level analysis_type)
             = Inl e"
  shows "compliance_validator (snd (run_enterprise_pipeline enterprise_ml_pipeline clk w
            dataset_id compliance_level analysis_type)) = compliance_validator w
         \<and> result_compliance_report (fst (run_enterprise_pipeline enterprise_ml_pipeline clk w
            dataset_id compliance_level analysis_type)) = None
         \<and> result_status (fst (run_enterprise_pipeline enterprise_ml_pipeline clk w
            dataset_id compliance_level analysis_type)) = ''FAILURE''
         \<and> result_compliance_status (fst (run_enterprise_pipeline enterprise_ml_pipeline clk w
            dataset_id compliance_level analysis_type)) = ''UNKNOWN''"
  using assms by (simp add: run_raise except_block_result except_block_validator)

theorem failed_stage_no_report_no_audit_witness:
  "audit_trail (compliance_validator (snd (run_enterprise_pipeline
        (\<lambda>_. Inl \<lparr> type_name = ''TimeoutError'', str_e = ''downstream timeout'' \<rparr> :: exn + unit)
        sample_clock (sample_world None None) ''enterprise_demo'' ''all'' ''investment_analysis''))) = []
   \<and> result_compliance_report (fst (run_enterprise_pipeline
        (\<lambda>_. Inl \<lparr> type_name = ''TimeoutError'', str_e = ''downstream timeout'' \<rparr> :: exn + unit)
        sample_clock (sample_world None None) ''enterprise_demo'' ''all'' ''investment_analysis'')) = None"
  using failed_stage_no_report_no_audit
          [of "\<lambda>_. Inl \<lparr> type_name = ''TimeoutError'', str_e = ''downstream timeout'' \<rparr> :: exn + unit"
              sample_clock "''enterprise_demo''" "''all''" "''investment_analysis''"
              "\<lparr> type_name = ''TimeoutError'', str_e = ''downstream timeout'' \<rparr>"
              "sample_world None None"]
  by (simp add: sample_world_def EnterpriseComplianceChain_init_def)






subsection \<open>What the predicates read\<close>

text \<open>
  C9. The claim: a required key counts only when it is present and its value is non-empty.
  The code tests \<^verbatim>\<open>field in data\<close> and never looks at a value: a context whose three SOX
  keys all hold the empty string satisfies the SOX predicate, and the report has no violation.
\<close>

theorem validate_sox_empty_values_counterexample:
  "validate_sox_compliance
     [''data_classification'' \<mapsto> ('''' :: string), ''access_controls'' \<mapsto> '''', ''audit_trail'' \<mapsto> '''']
   \<and> violations (fst (validate (sample_chain [''SOX'']) [] sample_time sample_time
        [''data_classification'' \<mapsto> ('''' :: string), ''access_controls'' \<mapsto> '''', ''audit_trail'' \<mapsto> ''''])) = []"
  by (simp add: validate_violations validate_sox_compliance_def sample_chain_def)


text \<open>Two contexts with the same keys are told apart by no predicate and by no report.\<close>

lemma predicates_dom_cong:
  assumes "dom data = dom data'"
  shows "validate_sox_compliance data = validate_sox_compliance data'"
    and "validate_gdpr_compliance data = validate_gdpr_compliance data'"
    and "validate_hipaa_compliance data = validate_hipaa_compliance data'"
  using assms
  by (simp_all add: validate_sox_compliance_iff validate_gdpr_compliance_iff
        validate_hipaa_compliance_iff)

lemma validate_dom_cong:
  assumes "dom data = dom data'"
  shows "fst (validate self lg t1 t2 data) = fst (validate self lg t1 t2 data')"
  by (simp only: validate_def Let_def fst_conv predicates_dom_cong [OF assms])


text \<open>
  C9, as amended: a key counts toward a standard's predicate exactly when it is present in the
  context, whatever its value; each predicate holds exactly when all of its required keys are
  present, so contexts with the same key set yield the same report.
\<close>

theorem compliance_predicates_test_presence_only:
  "(validate_sox_compliance data \<longleftrightarrow> set (required_keys ''SOX'') \<subseteq> dom data)
   \<and> (validate_gdpr_compliance data \<longleftrightarrow> set (required_keys ''GDPR'') \<subseteq> dom data)
   \<and> (validate_hipaa_compliance data \<longleftrightarrow> set (required_keys ''HIPAA'') \<subseteq> dom data)
   \<and> (dom data = dom data' \<longrightarrow>
        fst (validate self lg t1 t2 data) = fst (validate self lg t1 t2 data'))"
  using validate_sox_compliance_iff [of data] validate_gdpr_compliance_iff [of data]
    validate_hipaa_compliance_iff [of data] validate_dom_cong [of data data' self lg t1 t2]
  by blast

theorem compliance_predicates_test_presence_only_witness:
  "dom [''data_classification'' \<mapsto> ('''' :: string), ''access_controls'' \<mapsto> '''', ''audit_trail'' \<mapsto> '''']
     = dom [''data_classification'' \<mapsto> ''CONFIDENTIAL'', ''access_controls'' \<mapsto> ''RBAC_ENABLED'',
            ''audit_trail'' \<mapsto> ''REQUIRED'']
   \<and> fst (validate (sample_chain [''SOX'']) [] sample_time sample_time
        [''data_classification'' \<mapsto> ('''' :: string), ''access_controls'' \<mapsto> '''', ''audit_trail'' \<mapsto> ''''])
     = fst (validate (sample_chain [''SOX'']) [] sample_time sample_time
        [''data_classification'' \<mapsto> ''CONFIDENTIAL'', ''access_controls'' \<mapsto> ''RBAC_ENABLED'',
         ''audit_trail'' \<mapsto> ''REQUIRED''])"
proof -
  have d: "dom [''data_classification'' \<mapsto> ('''' :: string), ''access_controls'' \<mapsto> '''', ''audit_trail'' \<mapsto> '''']
     = dom [''data_classification'' \<mapsto> ''CONFIDENTIAL'', ''access_controls'' \<mapsto> ''RBAC_ENABLED'',
            ''audit_trail'' \<mapsto> ''REQUIRED'']"
    by simp
  from compliance_predicates_test_presence_only
         [of "[''data_classification'' \<mapsto> ('''' :: string), ''access_controls'' \<mapsto> '''', ''audit_trail'' \<mapsto> '''']"
             "[''data_classification'' \<mapsto> ''CONFIDENTIAL'', ''access_controls'' \<mapsto> ''RBAC_ENABLED'',
               ''audit_trail'' \<mapsto> ''REQUIRED'']"
             "sample_chain [''SOX'']" "[]" sample_time sample_time]
  have "dom [''data_classification'' \<mapsto> ('''' :: string), ''access_controls'' \<mapsto> '''', ''audit_trail'' \<mapsto> '''']
     = dom [''data_classification'' \<mapsto> ''CONFIDENTIAL'', ''access_controls'' \<mapsto> ''RBAC_ENABLED'',
            ''audit_trail'' \<mapsto> ''REQUIRED'']
    \<longrightarrow> fst (validate (sample_chain [''SOX'']) [] sample_time sample_time
        [''data_classification'' \<mapsto> ('''' :: string), ''access_controls'' \<mapsto> '''', ''audit_trail'' \<mapsto> ''''])
     = fst (validate (sample_chain [''SOX'']) [] sample_time sample_time
        [''data_classification'' \<mapsto> ''CONFIDENTIAL'', ''access_controls'' \<mapsto> ''RBAC_ENABLED'',
         ''audit_trail'' \<mapsto> ''REQUIRED''])"
    by (elim conjE)
  with d show ?thesis by (intro conjI) (assumption, erule mp, assumption)
qed

text \<open>
  C10. A configured standard other than SOX, GDPR and HIPAA is never checked: adding it to the
  configuration changes neither the violations nor the per-standard status keys of the report; a
  validator configured with such standards only reports no violation and writes no status key;
  no report has a status key other than the three; and \<^verbatim>\<open>PCI_DSS\<close> is among the default
  standards.
\<close>

theorem unchecked_standards_have_no_effect:
  "(S \<notin> {''SOX'', ''GDPR'', ''HIPAA''} \<longrightarrow>
       violations (fst (validate (self\<lparr>standards := standards self @ [S]\<rparr>) lg t1 t2 data))
         = violations (fst (validate self lg t1 t2 data))
     \<and> status_fields (fst (validate (self\<lparr>standards := standards self @ [S]\<rparr>) lg t1 t2 data))
         = status_fields (fst (validate self lg t1 t2 data)))
   \<and> (set (standards self) \<inter> {''SOX'', ''GDPR'', ''HIPAA''} = {} \<longrightarrow>
       violations (fst (validate self lg t1 t2 data)) = []
     \<and> status_fields (fst (validate self lg t1 t2 data)) = Map.empty)
   \<and> dom (status_fields (fst (validate self lg t1 t2 data)))
        \<subseteq> {''sox_status'', ''gdpr_status'', ''hipaa_status''}
   \<and> ''PCI_DSS'' \<in> set (standards (EnterpriseComplianceChain_init None))"
proof -
  have a: "violations (fst (validate (self\<lparr>standards := standards self @ [S]\<rparr>) lg t1 t2 data))
         = violations (fst (validate self lg t1 t2 data))
     \<and> status_fields (fst (validate (self\<lparr>standards := standards self @ [S]\<rparr>) lg t1 t2 data))
         = status_fields (fst (validate self lg t1 t2 data))"
    if "S \<notin> {''SOX'', ''GDPR'', ''HIPAA''}"
  proof -
    from that have m: "''SOX'' \<noteq> S" "''GDPR'' \<noteq> S" "''HIPAA'' \<noteq> S" by auto
    show ?thesis
      by (rule conjI, simp add: validate_violations m, rule ext, simp add: validate_status_fields m)
  qed
  have b: "violations (fst (validate self lg t1 t2 data)) = []
     \<and> status_fields (fst (validate self lg t1 t2 data)) = Map.empty"
    if "set (standards self) \<inter> {''SOX'', ''GDPR'', ''HIPAA''} = {}"
  proof -
    from that have m: "''SOX'' \<notin> set (standards self)" "''GDPR'' \<notin> set (standards self)"
      "''HIPAA'' \<notin> set (standards self)" by auto
    show ?thesis
      by (rule conjI, simp add: validate_violations m, rule ext, simp add: validate_status_fields m)
  qed
  have c: "dom (status_fields (fst (validate self lg t1 t2 data)))
        \<subseteq> {''sox_status'', ''gdpr_status'', ''hipaa_status''}"
    by (auto simp add: validate_status_fields dom_def split: if_splits)
  have d: "''PCI_DSS'' \<in> set (standards (EnterpriseComplianceChain_init None))"
    by (simp add: EnterpriseComplianceChain_init_def default_standards_def)
  from a b c d show ?thesis by blast
qed


theorem unchecked_standards_have_no_effect_witness:
  "''PCI_DSS'' \<notin> {''SOX'', ''GDPR'', ''HIPAA''}
   \<and> violations (fst (validate ((sample_chain [''SOX''])\<lparr>standards := standards (sample_chain [''SOX'']) @ [''PCI_DSS'']\<rparr>)
        [] sample_time sample_time (Map.empty :: string \<rightharpoonup> string)))
     = violations (fst (validate (sample_chain [''SOX'']) [] sample_time sample_time
        (Map.empty :: string \<rightharpoonup> string)))
   \<and> set (standards (sample_chain [''PCI_DSS''])) \<inter> {''SOX'', ''GDPR'', ''HIPAA''} = {}
   \<and> violations (fst (validate (sample_chain [''PCI_DSS'']) [] sample_time sample_time
        (Map.empty :: string \<rightharpoonup> string))) = []
   \<and> status_fields (fst (validate (sample_chain [''PCI_DSS'']) [] sample_time sample_time
        (Map.empty :: string \<rightharpoonup> string))) = Map.empty"
proof -
  have p: "''PCI_DSS'' \<notin> {''SOX'', ''GDPR'', ''HIPAA''}" by simp
  have q: "set (standards (sample_chain [''PCI_DSS''])) \<inter> {''SOX'', ''GDPR'', ''HIPAA''} = {}"
    by (simp add: sample_chain_def)
  note u1 = unchecked_standards_have_no_effect
         [of "''PCI_DSS''" "sample_chain [''SOX'']" "[]" sample_time sample_time
             "Map.empty :: string \<rightharpoonup> string", THEN conjunct1, rule_format, OF p]
  note u2 = unchecked_standards_have_no_effect
         [of "''PCI_DSS''" "sample_chain [''PCI_DSS'']" "[]" sample_time sample_time
             "Map.empty :: string \<rightharpoonup> string", THEN conjunct2, THEN conjunct1, rule_format, OF q]
  from p q u1 u2 show ?thesis by blast
qed

end
